theory Spec2Isabelle
  imports Main "HOL-Library.Sublist" "HOL-Library.Word"
begin

section \<open>Client credential resolution of the kes command line (cmd/kes)\<close>

text \<open>
  The development embeds \<^verbatim>\<open>newClient\<close>, \<^verbatim>\<open>isTerm\<close> and \<^verbatim>\<open>decodePrivateKey\<close>
  of \<^verbatim>\<open>cmd/kes\<close>. A Go \<^verbatim>\<open>string\<close> and a \<^verbatim>\<open>[]byte\<close> are byte sequences: both are
  \<^typ>\<open>string\<close> here (a \<^typ>\<open>char\<close> is one byte). The process environment is a
  partial map from names to values, so that \<^verbatim>\<open>os.LookupEnv\<close> is the lookup in that map:
  \<open>None\<close> is an absent variable, \<open>Some ''''\<close> a variable that is present and empty.
\<close>

type_synonym bytes = string

type_synonym environ = "string \<rightharpoonup> string"

subsection \<open>Go errors\<close>

text \<open>
  An \<^verbatim>\<open>error\<close> value is the sentinel \<^verbatim>\<open>x509.IncorrectPasswordError\<close>, a value made by
  \<^verbatim>\<open>errors.New\<close>, or an error that wraps another one under a text of its own.
  \<open>Error\<close> is the method \<^verbatim>\<open>Error()\<close>, which the verb \<^verbatim>\<open>%v\<close> prints;
  \<open>errors_Is\<close> is \<^verbatim>\<open>errors.Is\<close>, which follows the chain of wrapped errors.
\<close>

datatype go_error =
    x509_IncorrectPasswordError
  | errors_New string
  | Wrapped string go_error

fun Error :: "go_error \<Rightarrow> string" where
  "Error x509_IncorrectPasswordError = ''x509: decryption password incorrect''"
| "Error (errors_New s) = s"
| "Error (Wrapped s e) = s"

fun errors_Is :: "go_error \<Rightarrow> go_error \<Rightarrow> bool" where
  "errors_Is (Wrapped s e) target = (Wrapped s e = target \<or> errors_Is e target)"
| "errors_Is e target = (e = target)"

subsection \<open>PEM blocks, certificates and the TLS configuration\<close>

text \<open>
  \<^verbatim>\<open>pem.Block\<close>: the type tag, the headers (a Go map, here an association list with
  one entry per key, so that \<^verbatim>\<open>len(b.Headers)\<close> is its length) and the decoded bytes.
\<close>

record pem_Block =
  Type :: string
  Headers :: "(string \<times> string) list"
  Bytes :: bytes

text \<open>
  \<^verbatim>\<open>x509.IsEncryptedPEMBlock\<close> of the Go standard library reports whether the block has
  the header \<^verbatim>\<open>DEK-Info\<close> of the legacy encrypted PEM encoding.
\<close>

definition IsEncryptedPEMBlock :: "pem_Block \<Rightarrow> bool" where
  "IsEncryptedPEMBlock b \<longleftrightarrow> map_of (Headers b) ''DEK-Info'' \<noteq> None"

text \<open>\<^verbatim>\<open>tls.Certificate\<close>: a certificate chain with its private key.\<close>

datatype tls_Certificate = Certificate (chain: "bytes list") (PrivateKey: bytes)

text \<open>
  \<^verbatim>\<open>tls.Config\<close> of the Go standard library, with the fields the specification speaks
  of: the certificates, the trust roots (a nil pool is \<open>None\<close>), the server name, the
  verification flag, the cipher suites and the protocol versions. \<open>zero_Config\<close> is
  the zero value \<^verbatim>\<open>tls.Config{}\<close>, which leaves every choice to the defaults.
\<close>

record tls_Config =
  Certificates :: "tls_Certificate list"
  RootCAs :: "bytes list option"
  ServerName :: string
  InsecureSkipVerify :: bool
  CipherSuites :: "16 word list"
  MinVersion :: "16 word"
  MaxVersion :: "16 word"

definition zero_Config :: tls_Config where
  "zero_Config = \<lparr>Certificates = [], RootCAs = None, ServerName = [],
     InsecureSkipVerify = False, CipherSuites = [], MinVersion = 0, MaxVersion = 0\<rparr>"

subsection \<open>Files, events and outcomes\<close>

datatype os_File = Stdin | Stdout | Stderr

fun Fd :: "os_File \<Rightarrow> nat" where
  "Fd Stdin = 0"
| "Fd Stdout = 1"
| "Fd Stderr = 2"

text \<open>
  The steps of \<^verbatim>\<open>newClient\<close> that the properties speak of, in program order: parsing
  the API key, deriving a certificate, reading a file (\<^verbatim>\<open>os.ReadFile\<close>), writing to a
  stream (\<^verbatim>\<open>fmt.Fprint\<close>; \<^verbatim>\<open>fmt.Fprintln\<close> writes a newline), reading a password from
  a file descriptor with echo disabled (\<^verbatim>\<open>term.ReadPassword\<close>) and decrypting a block.
  Looking up the environment and the steps that only parse a buffer
  (\<^verbatim>\<open>https.FilterPEM\<close>, \<^verbatim>\<open>pem.Decode\<close>, \<^verbatim>\<open>tls.X509KeyPair\<close>) leave no event.
\<close>

datatype event =
    ParseAPIKey string
  | GenerateCertificate bytes
  | ReadFile string
  | Fprint os_File string
  | ReadPassword nat
  | DecryptPEMBlock pem_Block bytes

text \<open>
  Modelled from the spec: \<^verbatim>\<open>cli.Fatalf\<close> of \<^verbatim>\<open>internal/cli\<close>, which is not among the
  sources. Every failure is terminal: the message is presented to the user and the
  process exits, so nothing of \<^verbatim>\<open>newClient\<close> runs after it. The outcome \<open>Fatal\<close>
  carries the formatted message. Otherwise \<^verbatim>\<open>newClient\<close> returns the client that
  \<^verbatim>\<open>kes.NewClientWithConfig\<close> builds from the address and the TLS configuration.
\<close>

datatype outcome = Fatal string | Client string tls_Config

subsection \<open>The collaborators\<close>

text \<open>
  The functions of other packages that \<^verbatim>\<open>newClient\<close> calls are parameters: the kes-go
  library, the file system, \<^verbatim>\<open>https.FilterPEM\<close> (of \<^verbatim>\<open>internal/https\<close>, not among
  the sources), \<^verbatim>\<open>encoding/pem\<close>, \<^verbatim>\<open>golang.org/x/term\<close>, \<^verbatim>\<open>crypto/x509\<close> and
  \<^verbatim>\<open>crypto/tls\<close>. \<^verbatim>\<open>pem.Decode\<close> returns the next block, if there is one, and the
  rest of the buffer.
\<close>

record world =
  kes_ParseAPIKey :: "string \<Rightarrow> go_error + bytes"
  kes_GenerateCertificate :: "bytes \<Rightarrow> go_error + tls_Certificate"
  os_ReadFile :: "string \<Rightarrow> go_error + bytes"
  https_FilterPEM :: "bytes \<Rightarrow> (pem_Block \<Rightarrow> bool) \<Rightarrow> go_error + bytes"
  pem_Decode :: "bytes \<Rightarrow> pem_Block option \<times> bytes"
  pem_EncodeToMemory :: "pem_Block \<Rightarrow> bytes"
  term_IsTerminal :: "nat \<Rightarrow> bool"
  term_ReadPassword :: "nat \<Rightarrow> go_error + bytes"
  x509_DecryptPEMBlock :: "pem_Block \<Rightarrow> bytes \<Rightarrow> go_error + bytes"
  tls_X509KeyPair :: "bytes \<Rightarrow> bytes \<Rightarrow> go_error + tls_Certificate"

subsection \<open>strings.TrimSpace\<close>

text \<open>
  \<^verbatim>\<open>strings.TrimSpace\<close> of the Go standard library removes all leading and trailing
  white space, as defined by Unicode (\<^verbatim>\<open>unicode.IsSpace\<close>). In a byte string a white
  space character is its UTF-8 encoding: the six ASCII ones, U+0085, U+00A0, U+1680,
  U+2000 to U+200A, U+2028, U+2029, U+202F, U+205F and U+3000.
\<close>

definition whiteSpace :: "string list" where
  "whiteSpace =
    [[CHR 0x09], [CHR 0x0A], [CHR 0x0B], [CHR 0x0C], [CHR 0x0D], [CHR 0x20],
     [CHR 0xC2, CHR 0x85], [CHR 0xC2, CHR 0xA0],
     [CHR 0xE1, CHR 0x9A, CHR 0x80],
     [CHR 0xE2, CHR 0x80, CHR 0x80], [CHR 0xE2, CHR 0x80, CHR 0x81],
     [CHR 0xE2, CHR 0x80, CHR 0x82], [CHR 0xE2, CHR 0x80, CHR 0x83],
     [CHR 0xE2, CHR 0x80, CHR 0x84], [CHR 0xE2, CHR 0x80, CHR 0x85],
     [CHR 0xE2, CHR 0x80, CHR 0x86], [CHR 0xE2, CHR 0x80, CHR 0x87],
     [CHR 0xE2, CHR 0x80, CHR 0x88], [CHR 0xE2, CHR 0x80, CHR 0x89],
     [CHR 0xE2, CHR 0x80, CHR 0x8A],
     [CHR 0xE2, CHR 0x80, CHR 0xA8], [CHR 0xE2, CHR 0x80, CHR 0xA9],
     [CHR 0xE2, CHR 0x80, CHR 0xAF],
     [CHR 0xE2, CHR 0x81, CHR 0x9F],
     [CHR 0xE3, CHR 0x80, CHR 0x80]]"

function TrimLeftSpace :: "string \<Rightarrow> string" where
  "TrimLeftSpace s =
     (case List.find (\<lambda>e. prefix e s) whiteSpace of
        None \<Rightarrow> s
      | Some e \<Rightarrow> TrimLeftSpace (drop (length e) s))"
  by pat_completeness auto
termination
proof (relation "measure length")
  show "wf (measure length)" by simp
next
  fix s :: string and e :: string
  assume "List.find (\<lambda>e. prefix e s) whiteSpace = Some e"
  then have e: "e \<in> set whiteSpace" and p: "prefix e s"
    by (auto simp: find_Some_iff)
  from e have "e \<noteq> []" by (auto simp: whiteSpace_def)
  with p have "s \<noteq> []" by auto
  with \<open>e \<noteq> []\<close> show "(drop (length e) s, s) \<in> measure length" by simp
qed

function TrimRightSpace :: "string \<Rightarrow> string" where
  "TrimRightSpace s =
     (case List.find (\<lambda>e. suffix e s) whiteSpace of
        None \<Rightarrow> s
      | Some e \<Rightarrow> TrimRightSpace (take (length s - length e) s))"
  by pat_completeness auto
termination
proof (relation "measure length")
  show "wf (measure length)" by simp
next
  fix s :: string and e :: string
  assume "List.find (\<lambda>e. suffix e s) whiteSpace = Some e"
  then have e: "e \<in> set whiteSpace" and p: "suffix e s"
    by (auto simp: find_Some_iff)
  from e have "e \<noteq> []" by (auto simp: whiteSpace_def)
  with p have "s \<noteq> []" by auto
  with \<open>e \<noteq> []\<close> show "(take (length s - length e) s, s) \<in> measure length" by simp
qed

declare TrimLeftSpace.simps [simp del] TrimRightSpace.simps [simp del]

definition TrimSpace :: "string \<Rightarrow> string" where
  "TrimSpace s = TrimRightSpace (TrimLeftSpace s)"

subsection \<open>isTerm and decodePrivateKey\<close>

definition isTerm :: "world \<Rightarrow> os_File \<Rightarrow> bool" where
  "isTerm w f = term_IsTerminal w (Fd f)"

definition ErrNoPrivateKey :: go_error where
  "ErrNoPrivateKey = errors_New ''no PEM-encoded private key found''"

text \<open>
  The loop of \<^verbatim>\<open>decodePrivateKey\<close> runs for as long as the decoder hands back a block
  of another type and a buffer that is not empty. Nothing in the function bounds that,
  so the result is an option: \<open>None\<close> is the loop that never ends.
\<close>

partial_function (option) decodePrivateKey ::
  "(bytes \<Rightarrow> pem_Block option \<times> bytes) \<Rightarrow> bytes \<Rightarrow> (go_error + pem_Block) option" where
  "decodePrivateKey decode pemBlock =
     (if length pemBlock > 0 then
        (case decode pemBlock of
           (None, rest) \<Rightarrow> Some (Inl ErrNoPrivateKey)
         | (Some next, rest) \<Rightarrow>
             if Type next = ''PRIVATE KEY'' \<or> suffix '' PRIVATE KEY'' (Type next)
             then Some (Inr next)
             else decodePrivateKey decode rest)
      else Some (Inl ErrNoPrivateKey))"

declare decodePrivateKey.simps [code]

subsection \<open>newClient\<close>

definition DefaultServer :: string where
  "DefaultServer = ''https://127.0.0.1:7373''"

definition EnvServer :: string where
  "EnvServer = ''KES_SERVER''"

definition EnvAPIKey :: string where
  "EnvAPIKey = ''KES_API_KEY''"

definition EnvClientKey :: string where
  "EnvClientKey = ''KES_CLIENT_KEY''"

definition EnvClientCert :: string where
  "EnvClientCert = ''KES_CLIENT_CERT''"

text \<open>The verb \<^verbatim>\<open>'%s'\<close> of the messages: the argument between single quotes.\<close>

definition quoted :: "string \<Rightarrow> string" where
  "quoted s = [CHR 0x27] @ s @ [CHR 0x27]"

definition conflicting :: "string \<Rightarrow> string \<Rightarrow> string" where
  "conflicting a b =
     ''two conflicting environment variables set: unset either '' @ quoted a @ '' or '' @ quoted b"

definition prompt :: string where
  "prompt = ''Enter password for private key: ''"

text \<open>
  \<^verbatim>\<open>newClient\<close> returns the events in program order and the outcome. The result is
  \<open>None\<close> only where \<^verbatim>\<open>decodePrivateKey\<close> does not return. The block that asks for the
  password either ends the process or leaves a new value in \<^verbatim>\<open>keyPem\<close>; the model
  computes its events and that value first, as \<open>unlocked\<close>.
\<close>

definition newClient :: "world \<Rightarrow> environ \<Rightarrow> bool \<Rightarrow> (event list \<times> outcome) option" where
  "newClient w env insecureSkipVerify =
    (case env EnvAPIKey of
       Some apiKey \<Rightarrow>
         if env EnvClientCert \<noteq> None then
           Some ([], Fatal (conflicting EnvAPIKey EnvClientCert))
         else if env EnvClientKey \<noteq> None then
           Some ([], Fatal (conflicting EnvAPIKey EnvClientKey))
         else
           (case kes_ParseAPIKey w apiKey of
              Inl err \<Rightarrow>
                Some ([ParseAPIKey apiKey], Fatal (''invalid API key: '' @ Error err))
            | Inr key \<Rightarrow>
                (case kes_GenerateCertificate w key of
                   Inl err \<Rightarrow>
                     Some ([ParseAPIKey apiKey, GenerateCertificate key],
                       Fatal (''failed to generate client certificate from API key: '' @ Error err))
                 | Inr cert \<Rightarrow>
                     Some ([ParseAPIKey apiKey, GenerateCertificate key],
                       Client (case env EnvServer of None \<Rightarrow> DefaultServer | Some addr \<Rightarrow> addr)
                         (zero_Config\<lparr>Certificates := [cert],
                            InsecureSkipVerify := insecureSkipVerify\<rparr>))))
     | None \<Rightarrow>
         (case env EnvClientCert of
            None \<Rightarrow>
              Some ([], Fatal (''no TLS client certificate. Environment variable ''
                @ quoted EnvClientCert @ '' is not set''))
          | Some certPath \<Rightarrow>
         if TrimSpace certPath = [] then
           Some ([], Fatal (''no TLS client certificate. Environment variable ''
             @ quoted EnvClientCert @ '' is empty''))
         else
         (case env EnvClientKey of
            None \<Rightarrow>
              Some ([], Fatal (''no TLS private key. Environment variable ''
                @ quoted EnvClientKey @ '' is not set''))
          | Some keyPath \<Rightarrow>
         if TrimSpace keyPath = [] then
           Some ([], Fatal (''no TLS private key. Environment variable ''
             @ quoted EnvClientKey @ '' is empty''))
         else
         (case os_ReadFile w certPath of
            Inl err \<Rightarrow>
              Some ([ReadFile certPath], Fatal (''failed to load TLS certificate: '' @ Error err))
          | Inr certFile \<Rightarrow>
         (case https_FilterPEM w certFile (\<lambda>b. Type b = ''CERTIFICATE'') of
            Inl err \<Rightarrow>
              Some ([ReadFile certPath], Fatal (''failed to load TLS certificate: '' @ Error err))
          | Inr certPem \<Rightarrow>
         (case os_ReadFile w keyPath of
            Inl err \<Rightarrow>
              Some ([ReadFile certPath, ReadFile keyPath],
                Fatal (''failed to load TLS private key: '' @ Error err))
          | Inr keyPem \<Rightarrow>
         (case decodePrivateKey (pem_Decode w) keyPem of
            None \<Rightarrow> None
          | Some (Inl err) \<Rightarrow>
              Some ([ReadFile certPath, ReadFile keyPath],
                Fatal (''failed to read TLS private key: '' @ Error err))
          | Some (Inr privateKey) \<Rightarrow>
         (let unlocked =
            (if length (Headers privateKey) > 0 \<and> IsEncryptedPEMBlock privateKey then
               (case term_ReadPassword w (Fd Stderr) of
                  Inl err \<Rightarrow>
                    ([Fprint Stderr prompt, ReadPassword (Fd Stderr)],
                     Inl (''failed to read private key password: '' @ Error err))
                | Inr password \<Rightarrow>
                    (case x509_DecryptPEMBlock w privateKey password of
                       Inl err \<Rightarrow>
                         ([Fprint Stderr prompt, ReadPassword (Fd Stderr),
                           Fprint Stderr [CHR 0x0A], DecryptPEMBlock privateKey password],
                          if errors_Is err x509_IncorrectPasswordError
                          then Inl ''incorrect password''
                          else Inl (''failed to decrypt private key: '' @ Error err))
                     | Inr decPrivateKey \<Rightarrow>
                         ([Fprint Stderr prompt, ReadPassword (Fd Stderr),
                           Fprint Stderr [CHR 0x0A], DecryptPEMBlock privateKey password],
                          Inr (pem_EncodeToMemory w
                            \<lparr>Type = Type privateKey, Headers = [], Bytes = decPrivateKey\<rparr>))))
             else ([], Inr keyPem))
          in
         (case snd unlocked of
            Inl msg \<Rightarrow>
              Some ([ReadFile certPath, ReadFile keyPath] @ fst unlocked, Fatal msg)
          | Inr keyPem' \<Rightarrow>
         (case tls_X509KeyPair w certPem keyPem' of
            Inl err \<Rightarrow>
              Some ([ReadFile certPath, ReadFile keyPath] @ fst unlocked,
                Fatal (''failed to load TLS private key or certificate: '' @ Error err))
          | Inr cert \<Rightarrow>
              Some ([ReadFile certPath, ReadFile keyPath] @ fst unlocked,
                Client (case env EnvServer of None \<Rightarrow> DefaultServer | Some addr \<Rightarrow> addr)
                  (zero_Config\<lparr>Certificates := [cert],
                     InsecureSkipVerify := insecureSkipVerify\<rparr>))))))))))))"

subsection \<open>Notions the properties speak of\<close>

text \<open>
  The blocks of a buffer, in the order in which successive calls of the decoder find them
  from left to right: the stream ends at the end of the buffer or where the decoder finds
  no further block. The first argument bounds the number of blocks; a decoder that
  consumes its input finds at most as many blocks as the buffer has bytes.
\<close>

fun pemStream :: "nat \<Rightarrow> (bytes \<Rightarrow> pem_Block option \<times> bytes) \<Rightarrow> bytes \<Rightarrow> pem_Block list" where
  "pemStream 0 decode buf = []"
| "pemStream (Suc n) decode buf =
     (if buf = [] then []
      else (case decode buf of
              (None, rest) \<Rightarrow> []
            | (Some b, rest) \<Rightarrow> b # pemStream n decode rest))"

definition pemBlocks :: "(bytes \<Rightarrow> pem_Block option \<times> bytes) \<Rightarrow> bytes \<Rightarrow> pem_Block list" where
  "pemBlocks decode buf = pemStream (length buf) decode buf"

text \<open>
  \<^verbatim>\<open>pem.Decode\<close> returns, with a block, the part of its input after that block: the
  rest is shorter than the input.
\<close>

definition consumes :: "(bytes \<Rightarrow> pem_Block option \<times> bytes) \<Rightarrow> bool" where
  "consumes decode \<longleftrightarrow>
     (\<forall>buf b rest. decode buf = (Some b, rest) \<longrightarrow> length rest < length buf)"

text \<open>
  The runs of \<^verbatim>\<open>newClient\<close> that reach the password prompt: the API-key variable is
  absent, both path variables hold a value that is not blank, both files are read, the
  certificate file passes the filter as \<open>certPem\<close>, and \<^verbatim>\<open>decodePrivateKey\<close> returns a
  block that carries the headers of the legacy encryption.
\<close>

definition encryptedKeyFound ::
  "world \<Rightarrow> environ \<Rightarrow> string \<Rightarrow> string \<Rightarrow> bytes \<Rightarrow> pem_Block \<Rightarrow> bool" where
  "encryptedKeyFound w env certPath keyPath certPem privateKey \<longleftrightarrow>
     env EnvAPIKey = None
     \<and> env EnvClientCert = Some certPath \<and> TrimSpace certPath \<noteq> []
     \<and> env EnvClientKey = Some keyPath \<and> TrimSpace keyPath \<noteq> []
     \<and> (case os_ReadFile w certPath of
           Inl err \<Rightarrow> False
         | Inr certFile \<Rightarrow>
             https_FilterPEM w certFile (\<lambda>b. Type b = ''CERTIFICATE'') = Inr certPem)
     \<and> (case os_ReadFile w keyPath of
           Inl err \<Rightarrow> False
         | Inr keyPem \<Rightarrow> decodePrivateKey (pem_Decode w) keyPem = Some (Inr privateKey))
     \<and> length (Headers privateKey) > 0 \<and> IsEncryptedPEMBlock privateKey"

text \<open>The events that touch the file system or the terminal.\<close>

fun filesystemOrTerminal :: "event \<Rightarrow> bool" where
  "filesystemOrTerminal (ReadFile path) = True"
| "filesystemOrTerminal (Fprint f s) = True"
| "filesystemOrTerminal (ReadPassword fd) = True"
| "filesystemOrTerminal e = False"

subsection \<open>A small world for the examples\<close>

text \<open>
  The examples below run \<^verbatim>\<open>newClient\<close> in a world with three files. Its decoder reads
  one block from each byte of a buffer: \<open>C\<close> is a certificate, \<open>K\<close> an RSA private
  key, \<open>E\<close> an RSA private key with the headers of the legacy encryption, \<open>P\<close> a
  PKCS #8 private key, \<open>N\<close> a note; at any other byte it finds no block. Its
  \<^verbatim>\<open>https.FilterPEM\<close> accepts a buffer whose blocks all pass the filter. Standard
  error is not a terminal there, and reading a password from it fails.
\<close>

fun example_block :: "char \<Rightarrow> pem_Block option" where
  "example_block c =
     (if c = CHR ''C'' then Some \<lparr>Type = ''CERTIFICATE'', Headers = [], Bytes = ''c''\<rparr>
      else if c = CHR ''K'' then Some \<lparr>Type = ''RSA PRIVATE KEY'', Headers = [], Bytes = ''k''\<rparr>
      else if c = CHR ''E'' then
        Some \<lparr>Type = ''RSA PRIVATE KEY'',
          Headers = [(''Proc-Type'', ''4,ENCRYPTED''), (''DEK-Info'', ''AES-256-CBC,00'')],
          Bytes = ''e''\<rparr>
      else if c = CHR ''P'' then Some \<lparr>Type = ''PRIVATE KEY'', Headers = [], Bytes = ''p''\<rparr>
      else if c = CHR ''N'' then Some \<lparr>Type = ''NOTE'', Headers = [], Bytes = ''n''\<rparr>
      else None)"

fun example_Decode :: "bytes \<Rightarrow> pem_Block option \<times> bytes" where
  "example_Decode [] = (None, [])"
| "example_Decode (c # rest) =
     (case example_block c of None \<Rightarrow> (None, c # rest) | Some b \<Rightarrow> (Some b, rest))"

definition example_world :: world where
  "example_world =
    \<lparr>kes_ParseAPIKey = (\<lambda>s. if s = ''kes:v1:AA'' then Inr ''AA''
        else Inl (errors_New ''invalid API key format'')),
     kes_GenerateCertificate = (\<lambda>k. Inr (Certificate [''derived''] k)),
     os_ReadFile = (\<lambda>p. if p = ''client.crt'' then Inr ''CC''
        else if p = ''client.key'' then Inr ''CK''
        else if p = ''locked.key'' then Inr ''CE''
        else Inl (errors_New ''no such file or directory'')),
     https_FilterPEM = (\<lambda>b f.
        if list_all (\<lambda>c. case example_block c of None \<Rightarrow> False | Some blk \<Rightarrow> f blk) b
        then Inr b else Inl (errors_New ''https: unsupported PEM data block'')),
     pem_Decode = example_Decode,
     pem_EncodeToMemory = (\<lambda>b. ''K''),
     term_IsTerminal = (\<lambda>fd. False),
     term_ReadPassword = (\<lambda>fd. Inl (errors_New ''inappropriate ioctl for device'')),
     x509_DecryptPEMBlock = (\<lambda>b pw. if pw = ''secret'' then Inr ''k''
        else if pw = [] then Inl (errors_New ''x509: no password given'')
        else Inl x509_IncorrectPasswordError),
     tls_X509KeyPair = (\<lambda>c k. Inr (Certificate [c] k))\<rparr>"

section \<open>Auxiliary facts\<close>

subsection \<open>White space\<close>

lemma TrimLeftSpace_Nil: "TrimLeftSpace [] = []"
  by (subst TrimLeftSpace.simps) (simp add: whiteSpace_def)

lemma TrimRightSpace_Nil: "TrimRightSpace [] = []"
  by (subst TrimRightSpace.simps) (simp add: whiteSpace_def)

lemma TrimSpace_Nil: "TrimSpace [] = []"
  by (simp add: TrimSpace_def TrimLeftSpace_Nil TrimRightSpace_Nil)

text \<open>No encoding of a white space character is the beginning of another one.\<close>

lemma find_whiteSpace_prefix:
  assumes "e \<in> set whiteSpace"
  shows "List.find (\<lambda>e'. prefix e' (e @ r)) whiteSpace = Some e"
  using assms
  by (simp only: whiteSpace_def set_simps insert_iff empty_iff, elim disjE) simp_all

lemma TrimLeftSpace_append:
  assumes "e \<in> set whiteSpace"
  shows "TrimLeftSpace (e @ r) = TrimLeftSpace r"
  by (subst TrimLeftSpace.simps) (simp add: find_whiteSpace_prefix [OF assms])

lemma TrimSpace_concat:
  assumes "set ws \<subseteq> set whiteSpace"
  shows "TrimSpace (concat ws) = []"
proof -
  from assms have "TrimLeftSpace (concat ws) = []"
    by (induction ws) (simp_all add: TrimLeftSpace_Nil TrimLeftSpace_append)
  then show ?thesis by (simp add: TrimSpace_def TrimRightSpace_Nil)
qed

subsection \<open>The stream of blocks\<close>

lemma pemStream_Nil: "pemStream n decode [] = []"
  by (cases n) simp_all

text \<open>Beyond the length of the buffer, the bound on the number of blocks plays no part.\<close>

lemma pemStream_fuel:
  assumes "consumes decode"
  shows "length buf \<le> n \<Longrightarrow> length buf \<le> m \<Longrightarrow> pemStream n decode buf = pemStream m decode buf"
proof (induction n arbitrary: m buf)
  case 0
  then show ?case by (simp add: pemStream_Nil)
next
  case (Suc n)
  show ?case
  proof (cases m)
    case 0
    with Suc.prems show ?thesis by (simp add: pemStream_Nil)
  next
    case m: (Suc m')
    show ?thesis
    proof (cases "decode buf")
      case (Pair r rest)
      show ?thesis
      proof (cases r)
        case None
        with Pair m show ?thesis by simp
      next
        case (Some b)
        with Pair assms have "length rest < length buf" by (auto simp: consumes_def)
        with Suc.prems m have "length rest \<le> n" "length rest \<le> m'" by simp_all
        then have "pemStream n decode rest = pemStream m' decode rest" by (rule Suc.IH)
        with Pair Some m show ?thesis by simp
      qed
    qed
  qed
qed

lemma pemBlocks_step:
  assumes "consumes decode" and "buf \<noteq> []" and "decode buf = (Some b, rest)"
  shows "pemBlocks decode buf = b # pemBlocks decode rest"
proof -
  from assms(2) obtain n where n: "length buf = Suc n" by (cases buf) auto
  from assms(1,3) have "length rest < length buf" by (auto simp: consumes_def)
  with n have "length rest \<le> n" by simp
  then have "pemStream n decode rest = pemStream (length rest) decode rest"
    using pemStream_fuel [OF assms(1)] by blast
  with n assms(2,3) show ?thesis by (simp add: pemBlocks_def)
qed

lemma pemBlocks_end:
  assumes "buf = [] \<or> fst (decode buf) = None"
  shows "pemBlocks decode buf = []"
proof (cases buf)
  case Nil
  then show ?thesis by (simp add: pemBlocks_def)
next
  case (Cons c cs)
  with assms have "fst (decode buf) = None" by simp
  with Cons show ?thesis by (cases "decode (c # cs)") (simp add: pemBlocks_def)
qed

subsection \<open>The example world\<close>

lemma consumes_example: "consumes example_Decode"
  unfolding consumes_def
proof (intro allI impI)
  fix buf b rest
  assume "example_Decode buf = (Some b, rest)"
  then show "length rest < length buf"
    by (cases buf) (auto split: option.splits)
qed

lemma example_paths:
  "TrimSpace ''client.crt'' \<noteq> []" "TrimSpace ''client.key'' \<noteq> []"
  "TrimSpace ''locked.key'' \<noteq> []"
  by code_simp+

lemma example_locked:
  "decodePrivateKey example_Decode ''CE'' =
     Some (Inr \<lparr>Type = ''RSA PRIVATE KEY'',
       Headers = [(''Proc-Type'', ''4,ENCRYPTED''), (''DEK-Info'', ''AES-256-CBC,00'')],
       Bytes = ''e''\<rparr>)"
  by code_simp

lemma example_plain:
  "decodePrivateKey example_Decode ''CK'' =
     Some (Inr \<lparr>Type = ''RSA PRIVATE KEY'', Headers = [], Bytes = ''k''\<rparr>)"
  by code_simp

lemma example_found:
  "encryptedKeyFound (example_world\<lparr>term_ReadPassword := r\<rparr>)
     [''KES_CLIENT_CERT'' \<mapsto> ''client.crt'', ''KES_CLIENT_KEY'' \<mapsto> ''locked.key'']
     ''client.crt'' ''locked.key'' ''CC''
     \<lparr>Type = ''RSA PRIVATE KEY'',
       Headers = [(''Proc-Type'', ''4,ENCRYPTED''), (''DEK-Info'', ''AES-256-CBC,00'')],
       Bytes = ''e''\<rparr>"
  by (simp add: encryptedKeyFound_def example_world_def example_paths example_locked
      IsEncryptedPEMBlock_def EnvAPIKey_def EnvClientCert_def EnvClientKey_def)

lemma example_file_run:
  "newClient example_world
     [''KES_CLIENT_CERT'' \<mapsto> ''client.crt'', ''KES_CLIENT_KEY'' \<mapsto> ''client.key''] False =
   Some ([ReadFile ''client.crt'', ReadFile ''client.key''],
     Client ''https://127.0.0.1:7373''
       (zero_Config\<lparr>Certificates := [Certificate [''CC''] ''CK''],
          InsecureSkipVerify := False\<rparr>))"
  by (simp add: newClient_def example_world_def example_paths example_plain
      IsEncryptedPEMBlock_def DefaultServer_def
      EnvAPIKey_def EnvClientCert_def EnvClientKey_def EnvServer_def)

lemma example_api_key_run:
  "newClient example_world
     [''KES_API_KEY'' \<mapsto> ''kes:v1:AA'', ''KES_SERVER'' \<mapsto> ''''] True =
   Some ([ParseAPIKey ''kes:v1:AA'', GenerateCertificate ''AA''],
     Client ''''
       (zero_Config\<lparr>Certificates := [Certificate [''derived''] ''AA''],
          InsecureSkipVerify := True\<rparr>))"
  by (simp add: newClient_def example_world_def
      EnvAPIKey_def EnvClientCert_def EnvClientKey_def EnvServer_def)

section \<open>Properties\<close>

text \<open>
  C1. When the API-key variable is set together with the client-certificate variable or
  the client-key variable, whatever their values, newClient fails with the error
  "two conflicting environment variables set" that names the conflicting pair (the
  certificate variable when both are set), and no event comes before the failure: no
  file is read, no API key is parsed and no certificate is generated.
\<close>

theorem newClient_conflict:
  assumes "env EnvAPIKey = Some apiKey"
    and "env EnvClientCert \<noteq> None \<or> env EnvClientKey \<noteq> None"
  shows "newClient w env skip =
    Some ([], Fatal (''two conflicting environment variables set: unset either ''
      @ quoted ''KES_API_KEY'' @ '' or ''
      @ quoted (if env EnvClientCert \<noteq> None then ''KES_CLIENT_CERT'' else ''KES_CLIENT_KEY'')))"
  using assms
  by (auto simp: newClient_def conflicting_def EnvAPIKey_def EnvClientCert_def EnvClientKey_def)

theorem newClient_conflict_witness:
  "newClient example_world
     [''KES_API_KEY'' \<mapsto> ''kes:v1:AA'', ''KES_CLIENT_KEY'' \<mapsto> ''client.key''] False =
   Some ([], Fatal (''two conflicting environment variables set: '' @
     ''unset either 'KES_API_KEY' or 'KES_CLIENT_KEY'' @ [CHR 0x27]))"
  using newClient_conflict [where
      env = "[''KES_API_KEY'' \<mapsto> ''kes:v1:AA'', ''KES_CLIENT_KEY'' \<mapsto> ''client.key'']"
      and apiKey = "''kes:v1:AA''" and w = example_world and skip = False]
  by (simp add: EnvAPIKey_def EnvClientCert_def EnvClientKey_def quoted_def)

text \<open>
  C2, as stated, fails: \<^verbatim>\<open>newClient\<close> never calls \<^verbatim>\<open>isTerm\<close>. In the example world
  standard error is not a terminal and the key file holds an encrypted block; the
  prompt is written and the password read is attempted all the same.
\<close>

theorem prompt_attempted_without_terminal:
  "isTerm example_world Stderr = False
   \<and> newClient example_world
       [''KES_CLIENT_CERT'' \<mapsto> ''client.crt'', ''KES_CLIENT_KEY'' \<mapsto> ''locked.key''] False =
     Some ([ReadFile ''client.crt'', ReadFile ''locked.key'',
            Fprint Stderr ''Enter password for private key: '', ReadPassword 2],
           Fatal ''failed to read private key password: inappropriate ioctl for device'')"
  by (simp add: isTerm_def newClient_def example_world_def example_paths example_locked
      IsEncryptedPEMBlock_def prompt_def
      EnvAPIKey_def EnvClientCert_def EnvClientKey_def)

text \<open>
  C2, amended. On the file-pair path, when the matched private-key block carries the
  headers of the legacy encryption, newClient writes the prompt to standard error and
  calls term.ReadPassword on the descriptor of standard error whether or not standard
  error is a terminal (whatever \<open>term_IsTerminal\<close> answers); when that read returns
  an error, newClient fails at once with "failed to read private key password" and the
  error, having written no newline and attempted no decryption.
\<close>

theorem password_read_failure:
  assumes "encryptedKeyFound w env certPath keyPath certPem privateKey"
    and "term_ReadPassword w (Fd Stderr) = Inl err"
  shows "newClient (w\<lparr>term_IsTerminal := t\<rparr>) env skip =
    Some ([ReadFile certPath, ReadFile keyPath,
           Fprint Stderr ''Enter password for private key: '', ReadPassword 2],
          Fatal (''failed to read private key password: '' @ Error err))"
  using assms
  by (auto simp: encryptedKeyFound_def newClient_def prompt_def Let_def split: sum.splits)

theorem password_read_failure_witness:
  "newClient (example_world\<lparr>term_ReadPassword := \<lambda>fd. Inl (errors_New ''EOF''),
       term_IsTerminal := \<lambda>fd. True\<rparr>)
     [''KES_CLIENT_CERT'' \<mapsto> ''client.crt'', ''KES_CLIENT_KEY'' \<mapsto> ''locked.key''] False =
   Some ([ReadFile ''client.crt'', ReadFile ''locked.key'',
          Fprint Stderr ''Enter password for private key: '', ReadPassword 2],
         Fatal ''failed to read private key password: EOF'')"
  using password_read_failure [OF example_found [of "\<lambda>fd. Inl (errors_New ''EOF'')"],
      where err = "errors_New ''EOF''" and t = "\<lambda>fd. True" and skip = False]
  by simp

text \<open>
  C3, as stated, fails for the API key and for the server address: with both of them
  absent newClient succeeds on the file-pair path, and with the server address present
  and empty it succeeds with the empty address.
\<close>

theorem absent_api_key_and_server_no_error:
  "newClient example_world
     [''KES_CLIENT_CERT'' \<mapsto> ''client.crt'', ''KES_CLIENT_KEY'' \<mapsto> ''client.key''] False =
   Some ([ReadFile ''client.crt'', ReadFile ''client.key''],
     Client ''https://127.0.0.1:7373''
       (zero_Config\<lparr>Certificates := [Certificate [''CC''] ''CK''],
          InsecureSkipVerify := False\<rparr>))
   \<and> newClient example_world
     [''KES_API_KEY'' \<mapsto> ''kes:v1:AA'', ''KES_SERVER'' \<mapsto> ''''] True =
   Some ([ParseAPIKey ''kes:v1:AA'', GenerateCertificate ''AA''],
     Client ''''
       (zero_Config\<lparr>Certificates := [Certificate [''derived''] ''AA''],
          InsecureSkipVerify := True\<rparr>))"
  using example_file_run example_api_key_run by simp

text \<open>
  C3, amended. For the client certificate path and the client key path, when the
  API-key variable is absent: an absent variable makes newClient fail with "... is not
  set" and a variable that is present and empty (or blank) with "... is empty", each
  message naming the variable, the certificate variable being examined first; the four
  messages are distinct, and no file is read before the failure. (The API key and the
  server address have no such errors: an absent API key selects the file-pair path and
  an absent server address the default endpoint.)
\<close>

theorem missing_or_empty_paths:
  assumes "env EnvAPIKey = None"
  shows "(env EnvClientCert = None \<longrightarrow>
            newClient w env skip = Some ([], Fatal
              ''no TLS client certificate. Environment variable 'KES_CLIENT_CERT' is not set''))
       \<and> (env EnvClientCert = Some certPath \<and> TrimSpace certPath = [] \<longrightarrow>
            newClient w env skip = Some ([], Fatal
              ''no TLS client certificate. Environment variable 'KES_CLIENT_CERT' is empty''))
       \<and> (env EnvClientCert = Some certPath \<and> TrimSpace certPath \<noteq> []
              \<and> env EnvClientKey = None \<longrightarrow>
            newClient w env skip = Some ([], Fatal
              ''no TLS private key. Environment variable 'KES_CLIENT_KEY' is not set''))
       \<and> (env EnvClientCert = Some certPath \<and> TrimSpace certPath \<noteq> []
              \<and> env EnvClientKey = Some keyPath \<and> TrimSpace keyPath = [] \<longrightarrow>
            newClient w env skip = Some ([], Fatal
              ''no TLS private key. Environment variable 'KES_CLIENT_KEY' is empty''))
       \<and> distinct
           [''no TLS client certificate. Environment variable 'KES_CLIENT_CERT' is not set'',
            ''no TLS client certificate. Environment variable 'KES_CLIENT_CERT' is empty'',
            ''no TLS private key. Environment variable 'KES_CLIENT_KEY' is not set'',
            ''no TLS private key. Environment variable 'KES_CLIENT_KEY' is empty'']"
  using assms
  by (simp add: newClient_def quoted_def EnvClientCert_def EnvClientKey_def)

theorem missing_or_empty_paths_witness:
  "newClient example_world Map.empty False = Some ([], Fatal
     ''no TLS client certificate. Environment variable 'KES_CLIENT_CERT' is not set'')
   \<and> newClient example_world [''KES_CLIENT_CERT'' \<mapsto> ''''] False = Some ([], Fatal
     ''no TLS client certificate. Environment variable 'KES_CLIENT_CERT' is empty'')
   \<and> newClient example_world [''KES_CLIENT_CERT'' \<mapsto> ''client.crt''] False = Some ([], Fatal
     ''no TLS private key. Environment variable 'KES_CLIENT_KEY' is not set'')
   \<and> newClient example_world
       [''KES_CLIENT_CERT'' \<mapsto> ''client.crt'', ''KES_CLIENT_KEY'' \<mapsto> ''''] False =
     Some ([], Fatal ''no TLS private key. Environment variable 'KES_CLIENT_KEY' is empty'')"
  using missing_or_empty_paths [where env = Map.empty and w = example_world and skip = False]
    missing_or_empty_paths [where env = "[''KES_CLIENT_CERT'' \<mapsto> '''']"
      and certPath = "''''" and w = example_world and skip = False]
    missing_or_empty_paths [where env = "[''KES_CLIENT_CERT'' \<mapsto> ''client.crt'']"
      and certPath = "''client.crt''" and w = example_world and skip = False]
    missing_or_empty_paths [where
      env = "[''KES_CLIENT_CERT'' \<mapsto> ''client.crt'', ''KES_CLIENT_KEY'' \<mapsto> '''']"
      and certPath = "''client.crt''" and keyPath = "''''"
      and w = example_world and skip = False]
  by (simp add: EnvAPIKey_def EnvClientCert_def EnvClientKey_def TrimSpace_Nil example_paths)

text \<open>
  C4. For every buffer, decodePrivateKey returns the first block, in the order in which
  the decoder finds the blocks of the buffer from left to right, whose type is exactly
  "PRIVATE KEY" or ends with " PRIVATE KEY"; blocks of other types before it are passed
  over and not reported. If there is no such block, also when the buffer holds no block
  that can be decoded at all, it returns the error "no PEM-encoded private key found".
  The decoder is any function that, like \<^verbatim>\<open>pem.Decode\<close>, consumes its input; for such a
  decoder the loop ends.
\<close>

theorem decodePrivateKey_first_match:
  assumes "consumes decode"
  shows "decodePrivateKey decode buf =
    Some (case List.find (\<lambda>b. Type b = ''PRIVATE KEY'' \<or> suffix '' PRIVATE KEY'' (Type b))
                 (pemBlocks decode buf) of
            Some b \<Rightarrow> Inr b
          | None \<Rightarrow> Inl (errors_New ''no PEM-encoded private key found''))"
proof (induction buf rule: length_induct)
  case (1 buf)
  show ?case
  proof (cases "buf = [] \<or> fst (decode buf) = None")
    case True
    then have "pemBlocks decode buf = []" by (rule pemBlocks_end)
    with True show ?thesis
      by (subst decodePrivateKey.simps) (auto simp: ErrNoPrivateKey_def split: prod.splits)
  next
    case False
    then obtain b rest where d: "decode buf = (Some b, rest)" and ne: "buf \<noteq> []"
      by (cases "decode buf") auto
    from assms d have "length rest < length buf" by (auto simp: consumes_def)
    with 1 have IH: "decodePrivateKey decode rest =
      Some (case List.find (\<lambda>b. Type b = ''PRIVATE KEY'' \<or> suffix '' PRIVATE KEY'' (Type b))
                 (pemBlocks decode rest) of
            Some b \<Rightarrow> Inr b
          | None \<Rightarrow> Inl (errors_New ''no PEM-encoded private key found''))" by blast
    have blocks: "pemBlocks decode buf = b # pemBlocks decode rest"
      using assms ne d by (rule pemBlocks_step)
    show ?thesis
      by (subst decodePrivateKey.simps) (simp add: d ne blocks IH)
  qed
qed

theorem decodePrivateKey_first_match_witness:
  "decodePrivateKey example_Decode ''CNKP'' =
     Some (Inr \<lparr>Type = ''RSA PRIVATE KEY'', Headers = [], Bytes = ''k''\<rparr>)
   \<and> decodePrivateKey example_Decode ''NPK'' =
     Some (Inr \<lparr>Type = ''PRIVATE KEY'', Headers = [], Bytes = ''p''\<rparr>)
   \<and> decodePrivateKey example_Decode ''CN'' =
     Some (Inl (errors_New ''no PEM-encoded private key found''))
   \<and> decodePrivateKey example_Decode ''not PEM'' =
     Some (Inl (errors_New ''no PEM-encoded private key found''))"
  using decodePrivateKey_first_match [OF consumes_example, of "''CNKP''"]
    decodePrivateKey_first_match [OF consumes_example, of "''NPK''"]
    decodePrivateKey_first_match [OF consumes_example, of "''CN''"]
    decodePrivateKey_first_match [OF consumes_example, of "''not PEM''"]
  by (simp add: pemBlocks_def suffix_to_prefix)

text \<open>
  C5. For every encrypted private-key block and password: when the decryption fails
  because the password is incorrect (the error is x509.IncorrectPasswordError), newClient
  fails with the message "incorrect password" and nothing more; every other failure of
  the decryption gives "failed to decrypt private key: " followed by the text of the
  underlying error.
\<close>

theorem decrypt_failure:
  assumes "encryptedKeyFound w env certPath keyPath certPem privateKey"
    and "term_ReadPassword w (Fd Stderr) = Inr password"
    and "x509_DecryptPEMBlock w privateKey password = Inl err"
  shows "newClient w env skip =
    Some ([ReadFile certPath, ReadFile keyPath,
           Fprint Stderr ''Enter password for private key: '', ReadPassword 2,
           Fprint Stderr [CHR 0x0A], DecryptPEMBlock privateKey password],
          Fatal (if errors_Is err x509_IncorrectPasswordError then ''incorrect password''
                 else ''failed to decrypt private key: '' @ Error err))"
  using assms
  by (auto simp: encryptedKeyFound_def newClient_def prompt_def Let_def split: sum.splits)

theorem decrypt_failure_witness:
  "newClient (example_world\<lparr>term_ReadPassword := \<lambda>fd. Inr ''guess''\<rparr>)
     [''KES_CLIENT_CERT'' \<mapsto> ''client.crt'', ''KES_CLIENT_KEY'' \<mapsto> ''locked.key''] False =
   Some ([ReadFile ''client.crt'', ReadFile ''locked.key'',
          Fprint Stderr ''Enter password for private key: '', ReadPassword 2,
          Fprint Stderr [CHR 0x0A],
          DecryptPEMBlock \<lparr>Type = ''RSA PRIVATE KEY'',
            Headers = [(''Proc-Type'', ''4,ENCRYPTED''), (''DEK-Info'', ''AES-256-CBC,00'')],
            Bytes = ''e''\<rparr> ''guess''],
         Fatal ''incorrect password'')
   \<and> newClient (example_world\<lparr>term_ReadPassword := \<lambda>fd. Inr ''''\<rparr>)
     [''KES_CLIENT_CERT'' \<mapsto> ''client.crt'', ''KES_CLIENT_KEY'' \<mapsto> ''locked.key''] False =
   Some ([ReadFile ''client.crt'', ReadFile ''locked.key'',
          Fprint Stderr ''Enter password for private key: '', ReadPassword 2,
          Fprint Stderr [CHR 0x0A],
          DecryptPEMBlock \<lparr>Type = ''RSA PRIVATE KEY'',
            Headers = [(''Proc-Type'', ''4,ENCRYPTED''), (''DEK-Info'', ''AES-256-CBC,00'')],
            Bytes = ''e''\<rparr> ''''],
         Fatal ''failed to decrypt private key: x509: no password given'')"
  using decrypt_failure [OF example_found [of "\<lambda>fd. Inr ''guess''"],
      where password = "''guess''" and err = x509_IncorrectPasswordError and skip = False]
    decrypt_failure [OF example_found [of "\<lambda>fd. Inr ''''"],
      where password = "''''" and err = "errors_New ''x509: no password given''"
      and skip = False]
  by (simp add: example_world_def)

text \<open>
  C6. In every successful resolution, on the API-key path and on the file-pair path
  alike, the server address that newClient uses is the fixed local endpoint
  "https://127.0.0.1:7373" when the server-address variable is absent, and only then is
  the default put in; when the variable is present, the address is its value verbatim,
  the empty string included.
\<close>

theorem server_address:
  assumes "newClient w env skip = Some (tr, Client addr cfg)"
  shows "addr = (case env EnvServer of None \<Rightarrow> ''https://127.0.0.1:7373'' | Some v \<Rightarrow> v)"
  using assms
  by (auto simp: newClient_def Let_def DefaultServer_def split: option.splits sum.splits if_splits)

theorem server_address_witness:
  "newClient example_world
     [''KES_CLIENT_CERT'' \<mapsto> ''client.crt'', ''KES_CLIENT_KEY'' \<mapsto> ''client.key''] False =
   Some ([ReadFile ''client.crt'', ReadFile ''client.key''],
     Client ''https://127.0.0.1:7373''
       (zero_Config\<lparr>Certificates := [Certificate [''CC''] ''CK''],
          InsecureSkipVerify := False\<rparr>))
   \<and> ''https://127.0.0.1:7373'' =
     (case [''KES_CLIENT_CERT'' \<mapsto> ''client.crt'', ''KES_CLIENT_KEY'' \<mapsto> ''client.key'']
          EnvServer of None \<Rightarrow> ''https://127.0.0.1:7373'' | Some v \<Rightarrow> v)
   \<and> newClient example_world
     [''KES_API_KEY'' \<mapsto> ''kes:v1:AA'', ''KES_SERVER'' \<mapsto> ''''] True =
   Some ([ParseAPIKey ''kes:v1:AA'', GenerateCertificate ''AA''],
     Client ''''
       (zero_Config\<lparr>Certificates := [Certificate [''derived''] ''AA''],
          InsecureSkipVerify := True\<rparr>))
   \<and> '''' =
     (case [''KES_API_KEY'' \<mapsto> ''kes:v1:AA'', ''KES_SERVER'' \<mapsto> '''']
          EnvServer of None \<Rightarrow> ''https://127.0.0.1:7373'' | Some v \<Rightarrow> v)"
  using server_address [OF example_file_run] server_address [OF example_api_key_run]
    example_file_run example_api_key_run
  by simp



text \<open>
  C8, as stated, fails: when the password cannot be read, newClient ends with the error
  of the read and writes no newline after the prompt.
\<close>

theorem no_newline_after_failed_read:
  "newClient example_world
     [''KES_CLIENT_CERT'' \<mapsto> ''client.crt'', ''KES_CLIENT_KEY'' \<mapsto> ''locked.key'',
      ''KES_SERVER'' \<mapsto> ''https://kes.example.net:7373''] True =
   Some ([ReadFile ''client.crt'', ReadFile ''locked.key'',
          Fprint Stderr ''Enter password for private key: '', ReadPassword 2],
         Fatal ''failed to read private key password: inappropriate ioctl for device'')
   \<and> Fprint Stderr [CHR 0x0A] \<notin> set [ReadFile ''client.crt'', ReadFile ''locked.key'',
          Fprint Stderr ''Enter password for private key: '', ReadPassword 2]"
  by (simp add: newClient_def example_world_def example_paths example_locked
      IsEncryptedPEMBlock_def prompt_def
      EnvAPIKey_def EnvClientCert_def EnvClientKey_def)

text \<open>
  C8, amended. Whenever the password prompt is entered, the prompt text is written to
  the error stream, not to standard output, and the password is read without echo
  (term.ReadPassword on the descriptor of the error stream); when the read succeeds, a
  newline is written to the error stream before the decryption is attempted, hence
  whether the decryption succeeds or fails; when the read fails, newClient ends without
  writing it. These are all the events after the two file reads.
\<close>

theorem prompt_events:
  assumes "encryptedKeyFound w env certPath keyPath certPem privateKey"
  shows "map_option fst (newClient w env skip) =
    Some ([ReadFile certPath, ReadFile keyPath,
           Fprint Stderr ''Enter password for private key: '', ReadPassword (Fd Stderr)]
          @ (case term_ReadPassword w (Fd Stderr) of
               Inl err \<Rightarrow> []
             | Inr password \<Rightarrow> [Fprint Stderr [CHR 0x0A], DecryptPEMBlock privateKey password]))"
  using assms
  by (auto simp: encryptedKeyFound_def newClient_def prompt_def Let_def split: sum.splits)

theorem prompt_events_witness:
  "map_option fst (newClient (example_world\<lparr>term_ReadPassword := \<lambda>fd. Inr ''secret''\<rparr>)
     [''KES_CLIENT_CERT'' \<mapsto> ''client.crt'', ''KES_CLIENT_KEY'' \<mapsto> ''locked.key''] False) =
   Some [ReadFile ''client.crt'', ReadFile ''locked.key'',
     Fprint Stderr ''Enter password for private key: '', ReadPassword 2,
     Fprint Stderr [CHR 0x0A],
     DecryptPEMBlock \<lparr>Type = ''RSA PRIVATE KEY'',
       Headers = [(''Proc-Type'', ''4,ENCRYPTED''), (''DEK-Info'', ''AES-256-CBC,00'')],
       Bytes = ''e''\<rparr> ''secret'']
   \<and> map_option fst (newClient (example_world\<lparr>term_ReadPassword := \<lambda>fd. Inr ''guess''\<rparr>)
     [''KES_CLIENT_CERT'' \<mapsto> ''client.crt'', ''KES_CLIENT_KEY'' \<mapsto> ''locked.key''] False) =
   Some [ReadFile ''client.crt'', ReadFile ''locked.key'',
     Fprint Stderr ''Enter password for private key: '', ReadPassword 2,
     Fprint Stderr [CHR 0x0A],
     DecryptPEMBlock \<lparr>Type = ''RSA PRIVATE KEY'',
       Headers = [(''Proc-Type'', ''4,ENCRYPTED''), (''DEK-Info'', ''AES-256-CBC,00'')],
       Bytes = ''e''\<rparr> ''guess'']"
  using prompt_events [OF example_found [of "\<lambda>fd. Inr ''secret''"], where skip = False]
    prompt_events [OF example_found [of "\<lambda>fd. Inr ''guess''"], where skip = False]
  by simp

text \<open>
  C9. For every environment in which the API-key variable alone is set, newClient reads
  no file and does not interact with the terminal: its events are the parsing of the
  key and, when the key parses, the derivation of the certificate, after which it builds
  the configuration or fails.
\<close>

theorem api_key_path_events:
  assumes "env EnvAPIKey = Some apiKey"
    and "env EnvClientCert = None" and "env EnvClientKey = None"
  shows "\<exists>tr. map_option fst (newClient w env skip) = Some tr
      \<and> tr = (case kes_ParseAPIKey w apiKey of
                 Inl err \<Rightarrow> [ParseAPIKey apiKey]
               | Inr key \<Rightarrow> [ParseAPIKey apiKey, GenerateCertificate key])
      \<and> list_all (\<lambda>e. \<not> filesystemOrTerminal e) tr"
  using assms
  by (auto simp: newClient_def split: sum.splits)

theorem api_key_path_events_witness:
  "map_option fst (newClient example_world [''KES_API_KEY'' \<mapsto> ''kes:v1:AA''] False) =
     Some [ParseAPIKey ''kes:v1:AA'', GenerateCertificate ''AA'']
   \<and> map_option fst (newClient example_world [''KES_API_KEY'' \<mapsto> ''''] False) =
     Some [ParseAPIKey '''']"
  using api_key_path_events [where env = "[''KES_API_KEY'' \<mapsto> ''kes:v1:AA'']"
      and apiKey = "''kes:v1:AA''" and w = example_world and skip = False]
    api_key_path_events [where env = "[''KES_API_KEY'' \<mapsto> '''']"
      and apiKey = "''''" and w = example_world and skip = False]
  by (simp add: example_world_def EnvAPIKey_def EnvClientCert_def EnvClientKey_def)

text \<open>
  C10. For every value of the client-certificate path or of the client-key path that
  consists of white space characters only, newClient takes the variable for empty and
  fails with the error "... is empty", with no event before it: it does not try to open
  a file at that path. Emptiness is judged after trimming white space.
\<close>

theorem blank_path_is_empty:
  assumes "env EnvAPIKey = None" and "set ws \<subseteq> set whiteSpace"
  shows "(env EnvClientCert = Some (concat ws) \<longrightarrow>
            newClient w env skip = Some ([], Fatal
              ''no TLS client certificate. Environment variable 'KES_CLIENT_CERT' is empty''))
       \<and> (env EnvClientCert = Some certPath \<and> TrimSpace certPath \<noteq> []
              \<and> env EnvClientKey = Some (concat ws) \<longrightarrow>
            newClient w env skip = Some ([], Fatal
              ''no TLS private key. Environment variable 'KES_CLIENT_KEY' is empty''))"
  using assms(1) TrimSpace_concat [OF assms(2)]
  by (simp add: newClient_def quoted_def EnvClientCert_def EnvClientKey_def)

theorem blank_path_is_empty_witness:
  "newClient example_world [''KES_CLIENT_CERT'' \<mapsto> [CHR 0x20, CHR 0x09, CHR 0xC2, CHR 0xA0]]
     False = Some ([], Fatal
       ''no TLS client certificate. Environment variable 'KES_CLIENT_CERT' is empty'')
   \<and> newClient example_world
       [''KES_CLIENT_CERT'' \<mapsto> ''client.crt'',
        ''KES_CLIENT_KEY'' \<mapsto> [CHR 0x20, CHR 0x09, CHR 0xC2, CHR 0xA0]]
     False = Some ([], Fatal
       ''no TLS private key. Environment variable 'KES_CLIENT_KEY' is empty'')"
  using blank_path_is_empty [where
      env = "[''KES_CLIENT_CERT'' \<mapsto> [CHR 0x20, CHR 0x09, CHR 0xC2, CHR 0xA0]]"
      and ws = "[[CHR 0x20], [CHR 0x09], [CHR 0xC2, CHR 0xA0]]"
      and w = example_world and skip = False]
    blank_path_is_empty [where
      env = "[''KES_CLIENT_CERT'' \<mapsto> ''client.crt'',
        ''KES_CLIENT_KEY'' \<mapsto> [CHR 0x20, CHR 0x09, CHR 0xC2, CHR 0xA0]]"
      and ws = "[[CHR 0x20], [CHR 0x09], [CHR 0xC2, CHR 0xA0]]"
      and certPath = "''client.crt''"
      and w = example_world and skip = False]
  by (simp add: whiteSpace_def EnvAPIKey_def EnvClientCert_def EnvClientKey_def example_paths)

end
